theory Spec2Isabelle
  imports Main
begin

section \<open>The duty timer of the security monitor\<close>

text \<open>
  A shallow embedding of the shift-timer part of
  \<^verbatim>\<open>src/assets/js/security/security.monitor.js\<close>: the functions
  \<^verbatim>\<open>startDutyTimer\<close>, \<^verbatim>\<open>updateDutyTimer\<close>, \<^verbatim>\<open>showEndOfShiftModal\<close>,
  \<^verbatim>\<open>endShift\<close>, \<^verbatim>\<open>requestOvertime\<close> and \<^verbatim>\<open>logout\<close> of the object
  \<^verbatim>\<open>SecurityMonitor\<close>. Camera selection, the simulated detections, the theme, sound and
  fullscreen toggles never read or write the timer's fields and are left out. So are the
  two handlers that close a modal (lines 192 to 204): they remove the class \<^verbatim>\<open>open\<close>
  from elements that the markup, which is not part of the source, marks as backdrops.
\<close>

subsection \<open>JavaScript numbers and strings\<close>

text \<open>
  Every number the timer computes is either \<^verbatim>\<open>NaN\<close> (from an Invalid Date) or an
  integer count of milliseconds: the time value of a valid \<^verbatim>\<open>Date\<close> is integral, and
  the shift duration is eight hours plus a multiple of two hours. The finite numbers are
  modelled as mathematical integers, which is what IEEE doubles compute on them as long as
  the magnitudes stay below \<open>2^53\<close> (the time values of \<^verbatim>\<open>Date\<close> are bounded by
  \<open>8.64 * 10^15 < 2^53\<close>).
\<close>

datatype jsnum = NaN | Num int

text \<open>\<^verbatim>\<open>a - b\<close>\<close>

fun js_minus :: "jsnum \<Rightarrow> jsnum \<Rightarrow> jsnum" where
  "js_minus (Num a) (Num b) = Num (a - b)"
| "js_minus _ _ = NaN"

text \<open>\<^verbatim>\<open>Math.max(0, x)\<close>: \<^verbatim>\<open>NaN\<close> if an argument is \<^verbatim>\<open>NaN\<close>.\<close>

fun js_max0 :: "jsnum \<Rightarrow> jsnum" where
  "js_max0 (Num a) = Num (max 0 a)"
| "js_max0 NaN = NaN"

text \<open>
  \<^verbatim>\<open>x % k\<close> for a positive constant \<open>k\<close>: the remainder of the division truncated
  towards zero, so the result has the sign of \<open>x\<close>.
\<close>

fun js_rem :: "jsnum \<Rightarrow> int \<Rightarrow> jsnum" where
  "js_rem (Num a) k = Num (sgn a * (\<bar>a\<bar> mod k))"
| "js_rem NaN k = NaN"

text \<open>\<^verbatim>\<open>Math.floor(x / k)\<close> for a positive constant \<open>k\<close>.\<close>

fun js_floor_div :: "jsnum \<Rightarrow> int \<Rightarrow> jsnum" where
  "js_floor_div (Num a) k = Num (a div k)"
| "js_floor_div NaN k = NaN"

text \<open>The comparisons \<^verbatim>\<open>x <= k\<close> and \<^verbatim>\<open>x > k\<close>: false on \<^verbatim>\<open>NaN\<close>.\<close>

fun js_le :: "jsnum \<Rightarrow> int \<Rightarrow> bool" where
  "js_le (Num a) k = (a \<le> k)"
| "js_le NaN k = False"

fun js_gt :: "jsnum \<Rightarrow> int \<Rightarrow> bool" where
  "js_gt (Num a) k = (a > k)"
| "js_gt NaN k = False"

text \<open>\<^verbatim>\<open>Number.prototype.toString()\<close> on an integer or \<^verbatim>\<open>NaN\<close>.\<close>

definition digit :: "nat \<Rightarrow> char" where
  "digit d = ''0123456789'' ! d"

fun decimal :: "nat \<Rightarrow> string" where
  "decimal n = (if n < 10 then [digit n] else decimal (n div 10) @ [digit (n mod 10)])"

declare decimal.simps [simp del]

fun js_toString :: "jsnum \<Rightarrow> string" where
  "js_toString NaN = ''NaN''"
| "js_toString (Num a) = (if a < 0 then CHR ''-'' # decimal (nat (- a)) else decimal (nat a))"

text \<open>\<^verbatim>\<open>s.padStart(n, c)\<close> for a one-character filler \<open>c\<close>.\<close>

definition padStart :: "nat \<Rightarrow> char \<Rightarrow> string \<Rightarrow> string" where
  "padStart n c s = replicate (n - length s) c @ s"

text \<open>\<^verbatim>\<open>[a, b, c].join(':')\<close>\<close>

definition join3 :: "string \<Rightarrow> string \<Rightarrow> string \<Rightarrow> string" where
  "join3 a b c = a @ '':'' @ b @ '':'' @ c"

subsection \<open>The page: monitor object, local storage and the elements the timer touches\<close>

text \<open>
  An element of the document, as far as the timer uses one: its text, its class list
  (a \<^verbatim>\<open>DOMTokenList\<close>: no duplicates, insertion order) and the \<^verbatim>\<open>color\<close>
  property of its inline style.
\<close>

record element =
  textContent :: string
  classList :: "string list"
  color :: "string option"

definition classList_add :: "string \<Rightarrow> element \<Rightarrow> element" where
  "classList_add c e =
     e\<lparr>classList := (if c \<in> set (classList e) then classList e else classList e @ [c])\<rparr>"

definition classList_remove :: "string \<Rightarrow> element \<Rightarrow> element" where
  "classList_remove c e = e\<lparr>classList := removeAll c (classList e)\<rparr>"

definition setColor :: "string \<Rightarrow> element \<Rightarrow> element" where
  "setColor v e = e\<lparr>color := Some v\<rparr>"

definition setText :: "string \<Rightarrow> element \<Rightarrow> element" where
  "setText s e = e\<lparr>textContent := s\<rparr>"

text \<open>
  \<^verbatim>\<open>localStorage\<close> is a list of key/value pairs with at most one pair per key;
  \<^verbatim>\<open>getItem\<close> answers \<^verbatim>\<open>null\<close> (\<open>None\<close>) for a key that is not there.
\<close>

type_synonym storage = "(string \<times> string) list"

definition getItem :: "storage \<Rightarrow> string \<Rightarrow> string option" where
  "getItem ls k = map_of ls k"

definition setItem :: "storage \<Rightarrow> string \<Rightarrow> string \<Rightarrow> storage" where
  "setItem ls k v = (k, v) # filter (\<lambda>kv. fst kv \<noteq> k) ls"

definition removeItem :: "storage \<Rightarrow> string \<Rightarrow> storage" where
  "removeItem ls k = filter (\<lambda>kv. fst kv \<noteq> k) ls"

text \<open>
  The state of a loaded page. \<open>dutyStartTime\<close> is \<open>None\<close> for \<^verbatim>\<open>null\<close>, and
  \<open>Some t\<close> for a \<^verbatim>\<open>Date\<close> with time value \<open>t\<close> (\<open>Some NaN\<close> is an Invalid Date).
  \<open>dutyTimerInterval\<close> tells whether the one-second interval of the timer is registered.
  The four elements are the results of \<^verbatim>\<open>getElementById\<close>, \<open>None\<close> when the document
  has no such element. \<open>alerts\<close> collects the messages passed to \<^verbatim>\<open>alert\<close>,
  \<open>location\<close> is the page navigated to, and \<open>modalCalls\<close> counts the calls of
  \<^verbatim>\<open>showEndOfShiftModal\<close>.
\<close>

record page =
  dutyStartTime :: "jsnum option"
  dutyTimerInterval :: bool
  shiftDuration :: int
  localStorage :: storage
  dutyTimerValue :: "element option"
  dutyTimer :: "element option"
  endShiftModal :: "element option"
  modalDutyTime :: "element option"
  alerts :: "string list"
  location :: "string option"
  modalCalls :: nat

text \<open>
  The two functions of the host that the timer calls on dates: \<^verbatim>\<open>Date.parse\<close> behind
  \<^verbatim>\<open>new Date(string)\<close> (\<open>NaN\<close> for a string that is not a date) and
  \<^verbatim>\<open>Date.prototype.toISOString\<close> on a valid date. They are parameters of the model.
\<close>

record host =
  dateParse :: "string \<Rightarrow> jsnum"
  toISOString :: "int \<Rightarrow> string"

text \<open>The object literal \<^verbatim>\<open>SecurityMonitor\<close> in a freshly loaded document.\<close>

definition SecurityMonitor ::
  "storage \<Rightarrow> element option \<Rightarrow> element option \<Rightarrow> element option \<Rightarrow> element option \<Rightarrow> page" where
  "SecurityMonitor ls tv tc modal mt =
     \<lparr>dutyStartTime = None, dutyTimerInterval = False, shiftDuration = 8 * 60 * 60 * 1000,
      localStorage = ls, dutyTimerValue = tv, dutyTimer = tc, endShiftModal = modal,
      modalDutyTime = mt, alerts = [], location = None, modalCalls = 0\<rparr>"

subsection \<open>The timer functions\<close>

text \<open>
  The number a \<^verbatim>\<open>Date\<close> (or \<^verbatim>\<open>null\<close>) converts to under \<^verbatim>\<open>-\<close>:
  \<^verbatim>\<open>null\<close> is \<open>0\<close>.
\<close>

definition timeValue :: "jsnum option \<Rightarrow> jsnum" where
  "timeValue d = (case d of None \<Rightarrow> Num 0 | Some t \<Rightarrow> t)"

text \<open>Lines 45 to 47: \<^verbatim>\<open>elapsed\<close> and \<^verbatim>\<open>remaining\<close> at the clock reading \<open>now\<close>.\<close>

definition elapsed :: "page \<Rightarrow> int \<Rightarrow> jsnum" where
  "elapsed p now = js_minus (Num now) (timeValue (dutyStartTime p))"

definition remaining :: "page \<Rightarrow> int \<Rightarrow> jsnum" where
  "remaining p now =
     js_max0 (js_minus (Num (shiftDuration p)) (elapsed p now))"

text \<open>Lines 49 to 51.\<close>

definition hours :: "jsnum \<Rightarrow> jsnum" where
  "hours r = js_floor_div r 3600000"

definition minutes :: "jsnum \<Rightarrow> jsnum" where
  "minutes r = js_floor_div (js_rem r 3600000) 60000"

definition seconds :: "jsnum \<Rightarrow> jsnum" where
  "seconds r = js_floor_div (js_rem r 60000) 1000"

text \<open>Lines 53 to 57 (and the template string of line 366).\<close>

definition timeStr :: "jsnum \<Rightarrow> string" where
  "timeStr r =
     join3 (padStart 2 CHR ''0'' (js_toString (hours r)))
           (padStart 2 CHR ''0'' (js_toString (minutes r)))
           (padStart 2 CHR ''0'' (js_toString (seconds r)))"

text \<open>
  \<^verbatim>\<open>showEndOfShiftModal\<close>; \<open>now\<close> is its own reading of the clock.
\<close>

definition showEndOfShiftModal :: "page \<Rightarrow> int \<Rightarrow> page" where
  "showEndOfShiftModal p now =
     p\<lparr>modalDutyTime := map_option (setText (timeStr (elapsed p now))) (modalDutyTime p),
       endShiftModal := map_option (classList_add ''open'') (endShiftModal p),
       modalCalls := Suc (modalCalls p)\<rparr>"

text \<open>The condition of line 65 and that of line 71.\<close>

definition warningCond :: "jsnum \<Rightarrow> bool" where
  "warningCond r \<longleftrightarrow> hours r = Num 0 \<and> js_le (minutes r) 30 \<and> js_gt (minutes r) 0"

definition criticalCond :: "jsnum \<Rightarrow> bool" where
  "criticalCond r \<longleftrightarrow> r = Num 0"

text \<open>
  \<^verbatim>\<open>updateDutyTimer\<close>; \<open>now\<close> is the clock reading of line 45 and \<open>now'\<close> the
  one \<^verbatim>\<open>showEndOfShiftModal\<close> takes when it is called.
\<close>

definition updateDutyTimer :: "page \<Rightarrow> int \<Rightarrow> int \<Rightarrow> page" where
  "updateDutyTimer p now now' =
     (let r = remaining p now;
          p1 = p\<lparr>dutyTimerValue := map_option (setText (timeStr r)) (dutyTimerValue p)\<rparr>;
          p2 = (if warningCond r
                then p1\<lparr>dutyTimer := map_option (classList_add ''warning'') (dutyTimer p1),
                        dutyTimerValue := map_option (setColor ''#ffc107'') (dutyTimerValue p1)\<rparr>
                else p1)
      in if criticalCond r
         then showEndOfShiftModal
                (p2\<lparr>dutyTimer := map_option (classList_add ''critical'') (dutyTimer p2),
                    dutyTimerValue := map_option (setColor ''#dc3545'') (dutyTimerValue p2)\<rparr>)
                now'
         else p2)"

text \<open>
  \<^verbatim>\<open>startDutyTimer\<close>. The value \<^verbatim>\<open>getItem\<close> answers is truthy when it is neither
  \<^verbatim>\<open>null\<close> nor the empty string; the conditional of line 31 is written out by the
  cases of that value, the test of line 33 with \<open>truthy\<close>.
  \<open>t0\<close> is the clock reading of \<^verbatim>\<open>new Date()\<close> on line 31, \<open>t1\<close> and \<open>t2\<close> are
  those of the first \<^verbatim>\<open>updateDutyTimer\<close>, called on line 38. No statement of the
  function throws: \<^verbatim>\<open>toISOString\<close>, which raises a \<^verbatim>\<open>RangeError\<close> on an Invalid Date,
  is only applied to the valid date of \<^verbatim>\<open>new Date()\<close>.
\<close>

definition truthy :: "string option \<Rightarrow> bool" where
  "truthy s = (case s of None \<Rightarrow> False | Some v \<Rightarrow> v \<noteq> [])"

definition startDutyTimer :: "host \<Rightarrow> page \<Rightarrow> int \<Rightarrow> int \<Rightarrow> int \<Rightarrow> page" where
  "startDutyTimer h p t0 t1 t2 =
     (let stored = getItem (localStorage p) ''duty_start_time'';
          p1 = p\<lparr>dutyStartTime :=
                   Some (case stored of
                           None \<Rightarrow> Num t0
                         | Some v \<Rightarrow> if v \<noteq> [] then dateParse h v else Num t0)\<rparr>;
          p2 = (if \<not> truthy stored
                then p1\<lparr>localStorage :=
                          setItem (localStorage p1) ''duty_start_time'' (toISOString h t0)\<rparr>
                else p1)
      in updateDutyTimer (p2\<lparr>dutyTimerInterval := True\<rparr>) t1 t2)"

text \<open>\<^verbatim>\<open>endShift\<close>, \<^verbatim>\<open>requestOvertime\<close> and \<^verbatim>\<open>logout\<close>.\<close>

definition endShift :: "page \<Rightarrow> page" where
  "endShift p =
     p\<lparr>dutyTimerInterval := False,
       localStorage := removeItem (localStorage p) ''duty_start_time'',
       alerts := alerts p @ [''Shift ended. Thank you for your service!''],
       location := Some ''../../index.html''\<rparr>"

definition requestOvertime :: "page \<Rightarrow> page" where
  "requestOvertime p =
     p\<lparr>endShiftModal := map_option (classList_remove ''open'') (endShiftModal p),
       shiftDuration := shiftDuration p + 2 * 60 * 60 * 1000,
       alerts := alerts p @ [''Overtime approved. Extended by 2 hours.'']\<rparr>"

definition logout :: "page \<Rightarrow> page" where
  "logout p =
     p\<lparr>dutyTimerInterval := False,
       localStorage := removeItem (localStorage p) ''duty_start_time'',
       location := Some ''../../index.html''\<rparr>"

subsection \<open>The callbacks the page registers\<close>

text \<open>
  The interval of line 37 calls \<^verbatim>\<open>updateDutyTimer\<close> again and again; a pair holds the
  two clock readings of one call.
\<close>

fun ticks :: "page \<Rightarrow> (int \<times> int) list \<Rightarrow> page" where
  "ticks p [] = p"
| "ticks p ((now, now') # ts) = ticks (updateDutyTimer p now now') ts"

text \<open>
  The events that reach the timer once \<^verbatim>\<open>init\<close> has run: a firing of the interval (only
  while it is registered), and the clicks that \<^verbatim>\<open>bindEvents\<close> routes to
  \<^verbatim>\<open>endShift\<close> (line 183), \<^verbatim>\<open>requestOvertime\<close> (line 187) and \<^verbatim>\<open>logout\<close>
  (line 175, after the confirmation).
\<close>

datatype event = Tick int int | ConfirmEndShift | RequestOvertimeBtn | LogoutBtn

fun handle :: "page \<Rightarrow> event \<Rightarrow> page" where
  "handle p (Tick now now') = (if dutyTimerInterval p then updateDutyTimer p now now' else p)"
| "handle p ConfirmEndShift = endShift p"
| "handle p RequestOvertimeBtn = requestOvertime p"
| "handle p LogoutBtn = logout p"

fun run :: "page \<Rightarrow> event list \<Rightarrow> page" where
  "run p [] = p"
| "run p (e # es) = run (handle p e) es"

subsection \<open>The format the specification describes\<close>

text \<open>
  A field of two decimal digits, and the string \<open>HH:MM:SS\<close> of a number of milliseconds
  with hours \<open>r div 3600000\<close>, minutes \<open>(r mod 3600000) div 60000\<close> and seconds
  \<open>(r mod 60000) div 1000\<close>.
\<close>

definition two_digit :: "nat \<Rightarrow> string" where
  "two_digit n = [digit (n div 10), digit (n mod 10)]"

definition HHMMSS :: "int \<Rightarrow> string" where
  "HHMMSS r =
     two_digit (nat (r div 3600000)) @ '':'' @
     two_digit (nat ((r mod 3600000) div 60000)) @ '':'' @
     two_digit (nat ((r mod 60000) div 1000))"

subsection \<open>A page and a host for concrete runs\<close>

text \<open>
  An element with no text, class or colour; a host that answers as a browser does where
  the runs below call it (\<^verbatim>\<open>toISOString\<close> on the epoch, \<^verbatim>\<open>Date.parse\<close> on the
  string of the epoch and on strings that are no dates); and a document with the four
  elements, loaded with empty storage at clock reading \<open>0\<close>.
\<close>

definition blank :: element where
  "blank = \<lparr>textContent = [], classList = [], color = None\<rparr>"

definition epoch_host :: host where
  "epoch_host =
     \<lparr>dateParse = (\<lambda>s. if s = ''1970-01-01T00:00:00.000Z'' then Num 0 else NaN),
      toISOString = (\<lambda>t. ''1970-01-01T00:00:00.000Z'')\<rparr>"

definition fresh :: "storage \<Rightarrow> page" where
  "fresh ls = SecurityMonitor ls (Some blank) (Some blank) (Some blank) (Some blank)"

definition on_duty :: page where
  "on_duty = startDutyTimer epoch_host (fresh []) 0 0 0"

section \<open>Auxiliary facts\<close>

lemma decimal_lt10: "n < 10 \<Longrightarrow> decimal n = [digit n]"
  by (simp add: decimal.simps)

lemma decimal_lt100: "10 \<le> n \<Longrightarrow> n < 100 \<Longrightarrow> decimal n = [digit (n div 10), digit (n mod 10)]"
  by (subst decimal.simps) (simp add: decimal_lt10)

lemma pad2: "n < 100 \<Longrightarrow> padStart 2 CHR ''0'' (decimal n) = two_digit n"
  by (cases "n < 10") (simp_all add: padStart_def two_digit_def decimal_lt10 decimal_lt100 digit_def)

lemma length_decimal_pos: "Suc 0 \<le> length (decimal n)"
  by (subst decimal.simps) simp

lemma length_decimal_ge3: "100 \<le> n \<Longrightarrow> 3 \<le> length (decimal n)"
proof -
  assume h: "100 \<le> n"
  have a: "decimal n = decimal (n div 10) @ [digit (n mod 10)]"
    using h by (subst decimal.simps) simp
  have "\<not> n div 10 < 10"
    using h by arith
  then have b: "decimal (n div 10) = decimal (n div 10 div 10) @ [digit (n div 10 mod 10)]"
    by (subst decimal.simps) simp
  show ?thesis
    using length_decimal_pos [of "n div 10 div 10"] by (simp add: a b del: length_greater_0_conv)
qed

lemma pad_long: "2 \<le> length s \<Longrightarrow> padStart 2 c s = s"
  by (simp add: padStart_def)

lemma updateDutyTimer_dutyStartTime: "dutyStartTime (updateDutyTimer p n n') = dutyStartTime p"
  by (simp add: updateDutyTimer_def Let_def showEndOfShiftModal_def)

lemma updateDutyTimer_shiftDuration: "shiftDuration (updateDutyTimer p n n') = shiftDuration p"
  by (simp add: updateDutyTimer_def Let_def showEndOfShiftModal_def)

lemma updateDutyTimer_localStorage: "localStorage (updateDutyTimer p n n') = localStorage p"
  by (simp add: updateDutyTimer_def Let_def showEndOfShiftModal_def)

lemma updateDutyTimer_interval: "dutyTimerInterval (updateDutyTimer p n n') = dutyTimerInterval p"
  by (simp add: updateDutyTimer_def Let_def showEndOfShiftModal_def)

lemma updateDutyTimer_modalCalls:
  "modalCalls (updateDutyTimer p n n') =
     (if remaining p n = Num 0 then Suc (modalCalls p) else modalCalls p)"
  by (simp add: updateDutyTimer_def Let_def showEndOfShiftModal_def criticalCond_def)

lemma updateDutyTimer_text:
  "map_option textContent (dutyTimerValue (updateDutyTimer p n n')) =
     map_option (\<lambda>e. timeStr (remaining p n)) (dutyTimerValue p)"
  by (simp add: updateDutyTimer_def Let_def showEndOfShiftModal_def setText_def setColor_def
      option.map_comp comp_def)

lemma remaining_cong:
  "dutyStartTime q = dutyStartTime p \<Longrightarrow> shiftDuration q = shiftDuration p \<Longrightarrow>
   remaining q n = remaining p n"
  by (simp add: remaining_def elapsed_def)

lemma remaining_valid:
  "dutyStartTime p = Some (Num s) \<Longrightarrow>
   remaining p now = Num (max 0 (shiftDuration p - (now - s)))"
  by (simp add: remaining_def elapsed_def timeValue_def)

lemma js_rem_nonneg: "0 \<le> a \<Longrightarrow> js_rem (Num a) k = Num (a mod k)"
  by (cases "a = 0") simp_all

lemma minute_field_bounds: "(r div 60000 \<le> 30) = (r < (1860000::int))"
proof -
  define q where "q = r div 60000"
  define m where "m = r mod 60000"
  have "r = 60000 * q + m" "0 \<le> m" "m < 60000"
    by (simp_all add: q_def m_def)
  then have "(q \<le> 30) = (r < 1860000)"
    by arith
  then show ?thesis
    by (simp add: q_def)
qed

lemma warningCond_Num: "warningCond (Num r) \<longleftrightarrow> 60000 \<le> r \<and> r < 1860000"
proof (cases "0 \<le> r")
  case True
  have h: "hours (Num r) = Num 0 \<longleftrightarrow> r < 3600000"
    using True by (auto simp: hours_def zdiv_eq_0_iff)
  have m: "r < 3600000 \<Longrightarrow> minutes (Num r) = Num (r div 60000)"
    using True by (simp add: minutes_def js_rem_nonneg del: js_rem.simps)
  have "(r div 60000 \<le> 30 \<and> 0 < r div 60000) = (60000 \<le> r \<and> r < 1860000)"
    using minute_field_bounds [of r] by (auto simp: pos_imp_zdiv_pos_iff)
  then show ?thesis
    using h m by (auto simp: warningCond_def)
next
  case False
  then have "r div 3600000 < 0"
    by simp
  then show ?thesis
    using False by (simp add: warningCond_def hours_def)
qed

lemma ticks_dutyStartTime: "dutyStartTime (ticks p ts) = dutyStartTime p"
  by (induction p ts rule: ticks.induct) (simp_all add: updateDutyTimer_dutyStartTime)

lemma ticks_shiftDuration: "shiftDuration (ticks p ts) = shiftDuration p"
  by (induction p ts rule: ticks.induct) (simp_all add: updateDutyTimer_shiftDuration)

lemma ticks_localStorage: "localStorage (ticks p ts) = localStorage p"
  by (induction p ts rule: ticks.induct) (simp_all add: updateDutyTimer_localStorage)

lemma remaining_ticks: "remaining (ticks p ts) n = remaining p n"
  by (rule remaining_cong) (simp_all add: ticks_dutyStartTime ticks_shiftDuration)

lemma remaining_updateDutyTimer: "remaining (updateDutyTimer p t t') n = remaining p n"
  by (rule remaining_cong) (simp_all add: updateDutyTimer_dutyStartTime updateDutyTimer_shiftDuration)

lemma ticks_modalCalls:
  "modalCalls (ticks p ts) =
     modalCalls p + length (filter (\<lambda>t. remaining p (fst t) = Num 0) ts)"
proof (induction p ts rule: ticks.induct)
  case (1 p)
  show ?case by simp
next
  case (2 p now now' ts)
  then show ?case
    by (simp add: updateDutyTimer_modalCalls remaining_updateDutyTimer)
qed

lemma on_duty_eq:
  "on_duty =
     \<lparr>dutyStartTime = Some (Num 0), dutyTimerInterval = True, shiftDuration = 28800000,
      localStorage = [(''duty_start_time'', ''1970-01-01T00:00:00.000Z'')],
      dutyTimerValue = Some \<lparr>textContent = ''08:00:00'', classList = [], color = None\<rparr>,
      dutyTimer = Some blank, endShiftModal = Some blank, modalDutyTime = Some blank,
      alerts = [], location = None, modalCalls = 0\<rparr>"
  by code_simp

lemma classList_add_mem:
  "c \<in> set (classList (classList_add d e)) \<longleftrightarrow> c = d \<or> c \<in> set (classList e)"
  by (auto simp: classList_add_def)

lemma updateDutyTimer_color:
  "map_option color (dutyTimerValue (updateDutyTimer p now now')) =
   map_option (\<lambda>e. if criticalCond (remaining p now) then Some ''#dc3545''
                    else if warningCond (remaining p now) then Some ''#ffc107''
                    else color e)
     (dutyTimerValue p)"
  by (cases "dutyTimerValue p")
     (simp_all add: updateDutyTimer_def Let_def showEndOfShiftModal_def setColor_def setText_def)

lemma updateDutyTimer_modal_open:
  "map_option (\<lambda>e. ''open'' \<in> set (classList e)) (endShiftModal (updateDutyTimer p now now')) =
   map_option (\<lambda>e. ''open'' \<in> set (classList e) \<or> remaining p now = Num 0) (endShiftModal p)"
  by (cases "endShiftModal p")
     (auto simp: updateDutyTimer_def Let_def showEndOfShiftModal_def criticalCond_def
        classList_add_mem)

lemma updateDutyTimer_classes:
  "map_option (\<lambda>e. c \<in> set (classList e)) (dutyTimer (updateDutyTimer p now now')) =
   map_option (\<lambda>e. c \<in> set (classList e) \<or>
                    (c = ''warning'' \<and> warningCond (remaining p now)) \<or>
                    (c = ''critical'' \<and> criticalCond (remaining p now)))
     (dutyTimer p)"
  by (cases "dutyTimer p")
     (auto simp: updateDutyTimer_def Let_def showEndOfShiftModal_def classList_add_mem)

lemma getItem_setItem: "getItem (setItem ls k v) k = Some v"
  by (simp add: getItem_def setItem_def)

lemma getItem_removeItem: "getItem (removeItem ls k) k = None"
  by (induction ls) (auto simp: getItem_def removeItem_def)

lemma startDutyTimer_absent:
  "\<not> truthy (getItem (localStorage p) ''duty_start_time'') \<Longrightarrow>
   dutyStartTime (startDutyTimer h p t0 t1 t2) = Some (Num t0) \<and>
   localStorage (startDutyTimer h p t0 t1 t2) =
     setItem (localStorage p) ''duty_start_time'' (toISOString h t0)"
  by (auto simp: startDutyTimer_def Let_def updateDutyTimer_dutyStartTime
      updateDutyTimer_localStorage truthy_def split: option.splits)

lemma startDutyTimer_present:
  "getItem (localStorage p) ''duty_start_time'' = Some v \<Longrightarrow> v \<noteq> [] \<Longrightarrow>
   dutyStartTime (startDutyTimer h p t0 t1 t2) = Some (dateParse h v) \<and>
   localStorage (startDutyTimer h p t0 t1 t2) = localStorage p"
  by (simp add: startDutyTimer_def Let_def updateDutyTimer_dutyStartTime
      updateDutyTimer_localStorage truthy_def)

lemma startDutyTimer_shiftDuration:
  "shiftDuration (startDutyTimer h p t0 t1 t2) = shiftDuration p"
  by (simp add: startDutyTimer_def Let_def updateDutyTimer_shiftDuration)

lemma startDutyTimer_modalCalls_NaN:
  "getItem (localStorage p) ''duty_start_time'' = Some v \<Longrightarrow> v \<noteq> [] \<Longrightarrow>
   dateParse h v = NaN \<Longrightarrow>
   modalCalls (startDutyTimer h p t0 t1 t2) = modalCalls p \<and>
   dutyTimer (startDutyTimer h p t0 t1 t2) = dutyTimer p \<and>
   map_option textContent (dutyTimerValue (startDutyTimer h p t0 t1 t2)) =
     map_option (\<lambda>e. ''NaN:NaN:NaN'') (dutyTimerValue p)"
  apply (simp add: startDutyTimer_def Let_def truthy_def updateDutyTimer_def remaining_def elapsed_def
    timeValue_def criticalCond_def warningCond_def hours_def option.map_comp comp_def setText_def
    timeStr_def minutes_def seconds_def padStart_def join3_def)
  done

lemma updateDutyTimer_keeps_class:
  "dutyTimer p = Some e \<Longrightarrow> c \<in> set (classList e) \<Longrightarrow>
   map_option (\<lambda>e. c \<in> set (classList e)) (dutyTimer (updateDutyTimer p n n')) = Some True"
  by (simp add: updateDutyTimer_classes)

lemma remaining_requestOvertime:
  "dutyStartTime p = Some (Num s) \<Longrightarrow>
   remaining (requestOvertime p) now = Num (max 0 (shiftDuration p + 7200000 - (now - s)))"
  by (simp add: remaining_def elapsed_def timeValue_def requestOvertime_def)

lemma crit_eq:
  "updateDutyTimer on_duty 28810000 28810000 =
     \<lparr>dutyStartTime = Some (Num 0), dutyTimerInterval = True, shiftDuration = 28800000,
      localStorage = [(''duty_start_time'', ''1970-01-01T00:00:00.000Z'')],
      dutyTimerValue =
        Some \<lparr>textContent = ''00:00:00'', classList = [], color = Some ''#dc3545''\<rparr>,
      dutyTimer = Some \<lparr>textContent = [], classList = [''critical''], color = None\<rparr>,
      endShiftModal = Some \<lparr>textContent = [], classList = [''open''], color = None\<rparr>,
      modalDutyTime = Some \<lparr>textContent = ''08:00:10'', classList = [], color = None\<rparr>,
      alerts = [], location = None, modalCalls = 1\<rparr>"
  by code_simp

lemma hour_field_bounds: "(r div 3600000 < 100) = (r < (360000000::int))"
proof -
  define q where "q = r div 3600000"
  define m where "m = r mod 3600000"
  have "r = 3600000 * q + m" "0 \<le> m" "m < 3600000"
    by (simp_all add: q_def m_def)
  then have "(q < 100) = (r < 360000000)"
    by arith
  then show ?thesis
    by (simp add: q_def)
qed

lemma minute_field_lt: "nat ((r mod 3600000) div 60000) < 100" for r :: int
proof -
  have "r mod 3600000 \<le> 3599999"
    using pos_mod_bound [of 3600000 r] by simp
  then have "(r mod 3600000) div 60000 \<le> 3599999 div 60000"
    by (rule zdiv_mono1) simp
  then show ?thesis
    by simp
qed

lemma second_field_lt: "nat ((r mod 60000) div 1000) < 100" for r :: int
proof -
  have "r mod 60000 \<le> 59999"
    using pos_mod_bound [of 60000 r] by simp
  then have "(r mod 60000) div 1000 \<le> 59999 div 1000"
    by (rule zdiv_mono1) simp
  then show ?thesis
    by simp
qed

lemma js_toString_nonneg: "0 \<le> a \<Longrightarrow> js_toString (Num a) = decimal (nat a)"
  by simp

lemma hours_field:
  assumes "0 \<le> r"
  shows "padStart 2 CHR ''0'' (js_toString (hours (Num r))) =
     (if r < 360000000 then two_digit (nat (r div 3600000)) else decimal (nat (r div 3600000)))"
proof -
  have h: "js_toString (hours (Num r)) = decimal (nat (r div 3600000))"
    using assms by (simp add: hours_def pos_imp_zdiv_nonneg_iff)
  show ?thesis
  proof (cases "r < 360000000")
    case True
    then have "r div 3600000 < 100"
      by (simp add: hour_field_bounds)
    then have "nat (r div 3600000) < 100"
      by simp
    then show ?thesis
      using True by (simp add: h pad2)
  next
    case False
    then have "\<not> r div 3600000 < 100"
      by (simp add: hour_field_bounds)
    then have "100 \<le> nat (r div 3600000)"
      by simp
    then have "2 \<le> length (decimal (nat (r div 3600000)))"
      using length_decimal_ge3 [of "nat (r div 3600000)"] by simp
    then show ?thesis
      using False by (simp add: h pad_long)
  qed
qed

lemma minutes_field:
  assumes "0 \<le> r"
  shows "padStart 2 CHR ''0'' (js_toString (minutes (Num r))) =
     two_digit (nat ((r mod 3600000) div 60000))"
proof -
  have "0 \<le> (r mod 3600000) div 60000"
    by (simp add: pos_imp_zdiv_nonneg_iff)
  then have "js_toString (minutes (Num r)) = decimal (nat ((r mod 3600000) div 60000))"
    using assms by (simp add: minutes_def js_rem_nonneg del: js_rem.simps)
  then show ?thesis
    by (simp add: pad2 minute_field_lt)
qed

lemma seconds_field:
  assumes "0 \<le> r"
  shows "padStart 2 CHR ''0'' (js_toString (seconds (Num r))) =
     two_digit (nat ((r mod 60000) div 1000))"
proof -
  have "0 \<le> (r mod 60000) div 1000"
    by (simp add: pos_imp_zdiv_nonneg_iff)
  then have "js_toString (seconds (Num r)) = decimal (nat ((r mod 60000) div 1000))"
    using assms by (simp add: seconds_def js_rem_nonneg del: js_rem.simps)
  then show ?thesis
    by (simp add: pad2 second_field_lt)
qed

lemma updateDutyTimer_timerValue_present:
  "(dutyTimerValue (updateDutyTimer p n n') = None) = (dutyTimerValue p = None)"
  by (simp add: updateDutyTimer_def Let_def showEndOfShiftModal_def)

lemma ticks_timerValue_present:
  "(dutyTimerValue (ticks p ts) = None) = (dutyTimerValue p = None)"
  by (induction p ts rule: ticks.induct) (simp_all add: updateDutyTimer_timerValue_present)

lemma ticks_text:
  "map_option textContent (dutyTimerValue (updateDutyTimer (ticks p ts) now now')) =
     map_option (\<lambda>e. timeStr (remaining p now)) (dutyTimerValue p)"
proof -
  have "map_option (\<lambda>e. timeStr (remaining p now)) (dutyTimerValue (ticks p ts)) =
        map_option (\<lambda>e. timeStr (remaining p now)) (dutyTimerValue p)"
    using ticks_timerValue_present [of p ts]
    by (cases "dutyTimerValue (ticks p ts)"; cases "dutyTimerValue p") simp_all
  then show ?thesis
    by (simp add: updateDutyTimer_text remaining_ticks)
qed

lemma SecurityMonitor_fields:
  "localStorage (SecurityMonitor ls a b c d) = ls"
  "shiftDuration (SecurityMonitor ls a b c d) = 28800000"
  by (simp_all add: SecurityMonitor_def)

lemma start_after_removal:
  "getItem ls ''duty_start_time'' = None \<Longrightarrow>
   dutyStartTime (startDutyTimer h (SecurityMonitor ls a b c d) t0 t1 t2) = Some (Num t0) \<and>
   getItem (localStorage (startDutyTimer h (SecurityMonitor ls a b c d) t0 t1 t2))
     ''duty_start_time'' = Some (toISOString h t0)"
proof -
  assume "getItem ls ''duty_start_time'' = None"
  then have a: "\<not> truthy (getItem (localStorage (SecurityMonitor ls a b c d)) ''duty_start_time'')"
    by (simp add: truthy_def SecurityMonitor_fields)
  show ?thesis
    using startDutyTimer_absent [OF a, of h t0 t1 t2] by (simp add: getItem_setItem)
qed

lemma handle_shiftDuration:
  "shiftDuration (handle p e) =
     shiftDuration p + (if e = RequestOvertimeBtn then 7200000 else 0)"
  by (cases e)
     (simp_all add: updateDutyTimer_shiftDuration endShift_def requestOvertime_def logout_def)

lemma run_shiftDuration:
  "shiftDuration (run p es) =
     shiftDuration p + 7200000 * int (length (filter (\<lambda>e. e = RequestOvertimeBtn) es))"
  by (induction p es rule: run.induct) (simp_all add: handle_shiftDuration)

lemma run_append: "run p (es @ es') = run (run p es) es'"
  by (induction p es rule: run.induct) simp_all

section \<open>The claims of the specification\<close>

text \<open>
  Claim C1, as the code has it. \<^verbatim>\<open>updateDutyTimer\<close> has no flag that remembers an
  end-of-shift signal already given: every call at which \<^verbatim>\<open>remaining\<close> is \<open>0\<close> calls
  \<^verbatim>\<open>showEndOfShiftModal\<close> (and puts the class \<^verbatim>\<open>open\<close> on the modal), and a call at
  which it is not \<open>0\<close> does not. Over a run of the interval the number of signals is
  therefore the number of firings at which \<^verbatim>\<open>remaining\<close> is \<open>0\<close>.
\<close>

theorem endOfShift_every_tick:
  "modalCalls (updateDutyTimer p now now') =
     (if remaining p now = Num 0 then Suc (modalCalls p) else modalCalls p) \<and>
   map_option (\<lambda>e. ''open'' \<in> set (classList e)) (endShiftModal (updateDutyTimer p now now')) =
     map_option (\<lambda>e. ''open'' \<in> set (classList e) \<or> remaining p now = Num 0)
       (endShiftModal p) \<and>
   modalCalls (ticks p ts) =
     modalCalls p + length (filter (\<lambda>t. remaining p (fst t) = Num 0) ts)"
  by (simp add: updateDutyTimer_modalCalls updateDutyTimer_modal_open ticks_modalCalls)

text \<open>
  The claim as stated fails: a shift that started at clock reading \<open>0\<close> reaches zero at
  \<open>28800000\<close>; the firing at that reading gives the signal, and the firing one second
  later, with \<^verbatim>\<open>remaining\<close> still \<open>0\<close>, gives it again and rewrites the time shown in
  the modal.
\<close>

theorem endOfShift_once_counterexample:
  "remaining on_duty 28800000 = Num 0 \<and>
   remaining (updateDutyTimer on_duty 28800000 28800000) 28801000 = Num 0 \<and>
   modalCalls on_duty = 0 \<and>
   modalCalls (updateDutyTimer on_duty 28800000 28800000) = 1 \<and>
   modalCalls (updateDutyTimer (updateDutyTimer on_duty 28800000 28800000) 28801000 28801000) = 2 \<and>
   map_option textContent (modalDutyTime (updateDutyTimer on_duty 28800000 28800000)) =
     Some ''08:00:00'' \<and>
   map_option textContent
     (modalDutyTime
        (updateDutyTimer (updateDutyTimer on_duty 28800000 28800000) 28801000 28801000)) =
     Some ''08:00:01''"
  by code_simp

text \<open>
  Claim C2, as the code has it. The test of line 65 is on the displayed fields, not on
  the milliseconds: a call of \<^verbatim>\<open>updateDutyTimer\<close> puts the class \<^verbatim>\<open>warning\<close> on the
  timer exactly when the hours field is \<open>0\<close> and the minutes field is between \<open>1\<close> and
  \<open>30\<close>, that is when \<open>60000 \<le> remaining < 1860000\<close>; nothing removes the class, so a
  timer that has it keeps it. The call that adds the class also sets the colour of the
  time to \<^verbatim>\<open>#ffc107\<close>; a call at which neither test holds leaves the colour alone.
  With a shift of eight hours and 7h31m elapsed the test of line 65 holds.
\<close>

theorem warning_threshold:
  "map_option (\<lambda>e. ''warning'' \<in> set (classList e)) (dutyTimer (updateDutyTimer p now now')) =
     map_option (\<lambda>e. ''warning'' \<in> set (classList e) \<or> warningCond (remaining p now))
       (dutyTimer p) \<and>
   map_option color (dutyTimerValue (updateDutyTimer p now now')) =
     map_option (\<lambda>e. if criticalCond (remaining p now) then Some ''#dc3545''
                      else if warningCond (remaining p now) then Some ''#ffc107''
                      else color e)
       (dutyTimerValue p) \<and>
   (warningCond (Num r) \<longleftrightarrow> 60000 \<le> r \<and> r < 1860000) \<and>
   (dutyStartTime p = Some (Num s) \<and> shiftDuration p = 28800000 \<longrightarrow>
      warningCond (remaining p (s + 27060000)))"
proof -
  have "map_option (\<lambda>e. ''warning'' \<in> set (classList e)) (dutyTimer (updateDutyTimer p now now')) =
     map_option (\<lambda>e. ''warning'' \<in> set (classList e) \<or> warningCond (remaining p now))
       (dutyTimer p)"
    by (simp add: updateDutyTimer_classes)
  moreover have "dutyStartTime p = Some (Num s) \<and> shiftDuration p = 28800000 \<longrightarrow>
      warningCond (remaining p (s + 27060000))"
    by (simp add: remaining_valid warningCond_Num)
  ultimately show ?thesis
    by (simp add: warningCond_Num updateDutyTimer_color)
qed

text \<open>
  The claim as stated fails at both ends of the interval: with 30 minutes and 30 seconds
  left (more than 30 minutes) the call adds \<^verbatim>\<open>warning\<close>, and with 30 seconds left a
  call on a timer without the class does not add it.
\<close>

theorem warning_threshold_counterexample:
  "remaining on_duty 26970000 = Num 1830000 \<and>
   map_option classList (dutyTimer (updateDutyTimer on_duty 26970000 26970000)) = Some [''warning''] \<and>
   remaining on_duty 28770000 = Num 30000 \<and>
   map_option classList (dutyTimer (updateDutyTimer on_duty 28770000 28770000)) = Some []"
  by code_simp

text \<open>An eight-hour shift started at \<open>0\<close>, at 7h31m.\<close>

theorem warning_threshold_witness:
  "dutyStartTime on_duty = Some (Num 0) \<and> shiftDuration on_duty = 28800000 \<and>
   warningCond (remaining on_duty 27060000) \<and>
   map_option classList (dutyTimer (updateDutyTimer on_duty 27060000 27060000)) = Some [''warning'']"
proof -
  have a: "dutyStartTime on_duty = Some (Num 0) \<and> shiftDuration on_duty = 28800000"
    by (simp add: on_duty_eq)
  have b: "map_option classList (dutyTimer (updateDutyTimer on_duty 27060000 27060000)) = Some [''warning'']"
    by code_simp
  show ?thesis
    using a b warning_threshold [of on_duty 0 0 0 0] by simp
qed

text \<open>
  Claim C3, as the code has it. A stored value that is missing (\<^verbatim>\<open>null\<close>) or the empty
  string makes \<^verbatim>\<open>startDutyTimer\<close> take the clock reading as the start and store it. A
  non-empty value is handed to \<^verbatim>\<open>new Date\<close> unchecked: when it does not parse, the start
  is an Invalid Date, the stored value stays, \<^verbatim>\<open>remaining\<close> is \<^verbatim>\<open>NaN\<close> at every clock
  reading, the timer shows \<^verbatim>\<open>NaN:NaN:NaN\<close>, and neither a class nor the end-of-shift
  signal is given. No branch raises an error.
\<close>

theorem start_missing_or_unparseable:
  "(getItem (localStorage p) ''duty_start_time'' = None \<or>
    getItem (localStorage p) ''duty_start_time'' = Some [] \<longrightarrow>
      dutyStartTime (startDutyTimer h p t0 t1 t2) = Some (Num t0) \<and>
      getItem (localStorage (startDutyTimer h p t0 t1 t2)) ''duty_start_time'' =
        Some (toISOString h t0)) \<and>
   (getItem (localStorage p) ''duty_start_time'' = Some v \<and> v \<noteq> [] \<and> dateParse h v = NaN \<longrightarrow>
      dutyStartTime (startDutyTimer h p t0 t1 t2) = Some NaN \<and>
      localStorage (startDutyTimer h p t0 t1 t2) = localStorage p \<and>
      remaining (startDutyTimer h p t0 t1 t2) now = NaN \<and>
      map_option textContent (dutyTimerValue (startDutyTimer h p t0 t1 t2)) =
        map_option (\<lambda>e. ''NaN:NaN:NaN'') (dutyTimerValue p) \<and>
      dutyTimer (startDutyTimer h p t0 t1 t2) = dutyTimer p \<and>
      modalCalls (startDutyTimer h p t0 t1 t2) = modalCalls p)"
proof (intro conjI impI)
  assume "getItem (localStorage p) ''duty_start_time'' = None \<or>
    getItem (localStorage p) ''duty_start_time'' = Some []"
  then have a: "\<not> truthy (getItem (localStorage p) ''duty_start_time'')"
    by (auto simp: truthy_def)
  show "dutyStartTime (startDutyTimer h p t0 t1 t2) = Some (Num t0)"
    using startDutyTimer_absent [OF a] by simp
  show "getItem (localStorage (startDutyTimer h p t0 t1 t2)) ''duty_start_time'' =
        Some (toISOString h t0)"
    using startDutyTimer_absent [OF a, of h t0 t1 t2] by (simp add: getItem_setItem)
next
  assume b: "getItem (localStorage p) ''duty_start_time'' = Some v \<and> v \<noteq> [] \<and> dateParse h v = NaN"
  then have g: "getItem (localStorage p) ''duty_start_time'' = Some v" and v: "v \<noteq> []"
    and n: "dateParse h v = NaN"
    by simp_all
  show s: "dutyStartTime (startDutyTimer h p t0 t1 t2) = Some NaN"
    using startDutyTimer_present [OF g v, of h t0 t1 t2] n by simp
  show "localStorage (startDutyTimer h p t0 t1 t2) = localStorage p"
    using startDutyTimer_present [OF g v, of h t0 t1 t2] by simp
  show "remaining (startDutyTimer h p t0 t1 t2) now = NaN"
    using s by (simp add: remaining_def elapsed_def timeValue_def)
  show "map_option textContent (dutyTimerValue (startDutyTimer h p t0 t1 t2)) =
        map_option (\<lambda>e. ''NaN:NaN:NaN'') (dutyTimerValue p)"
    using startDutyTimer_modalCalls_NaN [OF g v n] by simp
  show "dutyTimer (startDutyTimer h p t0 t1 t2) = dutyTimer p"
    using startDutyTimer_modalCalls_NaN [OF g v n] by simp
  show "modalCalls (startDutyTimer h p t0 t1 t2) = modalCalls p"
    using startDutyTimer_modalCalls_NaN [OF g v n] by simp
qed

text \<open>
  The claim as stated fails on a stored string that is no date: the start is not the
  clock reading \<open>5\<close> but an Invalid Date, and the timer shows \<^verbatim>\<open>NaN:NaN:NaN\<close>.
\<close>

theorem start_unparseable_counterexample:
  "getItem [(''duty_start_time'', ''not a date'')] ''duty_start_time'' = Some ''not a date'' \<and>
   dateParse epoch_host ''not a date'' = NaN \<and>
   dutyStartTime (startDutyTimer epoch_host (fresh [(''duty_start_time'', ''not a date'')]) 5 5 5) =
     Some NaN \<and>
   map_option textContent
     (dutyTimerValue (startDutyTimer epoch_host (fresh [(''duty_start_time'', ''not a date'')]) 5 5 5)) =
     Some ''NaN:NaN:NaN''"
  by code_simp

text \<open>A page loaded with empty storage, and one loaded with a stored string that is no date.\<close>

theorem start_missing_or_unparseable_witness:
  "getItem (localStorage (fresh [])) ''duty_start_time'' = None \<and>
   dutyStartTime (startDutyTimer epoch_host (fresh []) 0 0 0) = Some (Num 0) \<and>
   getItem (localStorage (fresh [(''duty_start_time'', ''not a date'')])) ''duty_start_time'' =
     Some ''not a date'' \<and>
   dateParse epoch_host ''not a date'' = NaN \<and>
   remaining (startDutyTimer epoch_host (fresh [(''duty_start_time'', ''not a date'')]) 5 5 5) 9 = NaN"
proof -
  have a: "getItem (localStorage (fresh [])) ''duty_start_time'' = None"
    by code_simp
  have b: "getItem (localStorage (fresh [(''duty_start_time'', ''not a date'')])) ''duty_start_time'' =
     Some ''not a date'' \<and> ''not a date'' \<noteq> [] \<and> dateParse epoch_host ''not a date'' = NaN"
    by code_simp
  show ?thesis
    using a b start_missing_or_unparseable [of "fresh []" epoch_host 0 0 0 "''x''" 0]
      start_missing_or_unparseable [of "fresh [(''duty_start_time'', ''not a date'')]" epoch_host 5 5 5
        "''not a date''" 9]
    by simp
qed

text \<open>
  Claim C4, as the code has it. \<^verbatim>\<open>requestOvertime\<close> adds exactly \<open>7200000\<close> to
  \<^verbatim>\<open>shiftDuration\<close> and leaves the start time, the timer's classes and its colour as
  they are. At a clock reading at which the shift had run out, \<^verbatim>\<open>remaining\<close> goes from
  \<open>0\<close> to two hours less the time by which the shift was overrun (two hours only when
  the request comes at the very millisecond the shift ends). No call of
  \<^verbatim>\<open>updateDutyTimer\<close> removes a class, so the timer keeps \<^verbatim>\<open>critical\<close> after the
  extension. A later call at which \<^verbatim>\<open>remaining\<close> is \<open>0\<close> again gives the
  end-of-shift signal again and opens the modal.
\<close>

theorem overtime_extends:
  "shiftDuration (requestOvertime p) = shiftDuration p + 7200000 \<and>
   dutyStartTime (requestOvertime p) = dutyStartTime p \<and>
   dutyTimer (requestOvertime p) = dutyTimer p \<and>
   dutyTimerValue (requestOvertime p) = dutyTimerValue p \<and>
   (dutyStartTime p = Some (Num s) \<and> shiftDuration p \<le> now - s \<longrightarrow>
      remaining p now = Num 0 \<and>
      remaining (requestOvertime p) now =
        Num (max 0 (7200000 - (now - s - shiftDuration p)))) \<and>
   (dutyTimer p = Some e \<and> c \<in> set (classList e) \<longrightarrow>
      map_option (\<lambda>e. c \<in> set (classList e))
        (dutyTimer (updateDutyTimer (requestOvertime p) n n')) = Some True) \<and>
   (remaining (requestOvertime p) n = Num 0 \<longrightarrow>
      modalCalls (updateDutyTimer (requestOvertime p) n n') = Suc (modalCalls p) \<and>
      map_option (\<lambda>e. ''open'' \<in> set (classList e))
        (endShiftModal (updateDutyTimer (requestOvertime p) n n')) =
        map_option (\<lambda>e. True) (endShiftModal p))"
proof (intro conjI impI)
  show "shiftDuration (requestOvertime p) = shiftDuration p + 7200000"
    by (simp add: requestOvertime_def)
  show "dutyStartTime (requestOvertime p) = dutyStartTime p"
    by (simp add: requestOvertime_def)
  show t: "dutyTimer (requestOvertime p) = dutyTimer p"
    by (simp add: requestOvertime_def)
  show "dutyTimerValue (requestOvertime p) = dutyTimerValue p"
    by (simp add: requestOvertime_def)
next
  assume a: "dutyStartTime p = Some (Num s) \<and> shiftDuration p \<le> now - s"
  then show "remaining p now = Num 0"
    by (simp add: remaining_valid)
  have "shiftDuration p + 7200000 - (now - s) = 7200000 - (now - s - shiftDuration p)"
    by simp
  then show "remaining (requestOvertime p) now =
        Num (max 0 (7200000 - (now - s - shiftDuration p)))"
    using a by (simp add: remaining_requestOvertime)
next
  assume "dutyTimer p = Some e \<and> c \<in> set (classList e)"
  then have "dutyTimer (requestOvertime p) = Some e" and "c \<in> set (classList e)"
    by (simp_all add: requestOvertime_def)
  then show "map_option (\<lambda>e. c \<in> set (classList e))
        (dutyTimer (updateDutyTimer (requestOvertime p) n n')) = Some True"
    by (rule updateDutyTimer_keeps_class)
next
  assume z: "remaining (requestOvertime p) n = Num 0"
  then show "modalCalls (updateDutyTimer (requestOvertime p) n n') = Suc (modalCalls p)"
    by (simp add: updateDutyTimer_modalCalls requestOvertime_def)
  show "map_option (\<lambda>e. ''open'' \<in> set (classList e))
        (endShiftModal (updateDutyTimer (requestOvertime p) n n')) =
        map_option (\<lambda>e. True) (endShiftModal p)"
    using z
    by (simp add: updateDutyTimer_def Let_def criticalCond_def showEndOfShiftModal_def
        requestOvertime_def option.map_comp comp_def classList_add_mem)
qed

text \<open>
  The claim as stated fails: overtime asked ten seconds after the end of the shift leaves
  1h59m50s, not two hours, and one second later, with more than 30 minutes left, the timer
  still carries \<^verbatim>\<open>critical\<close> and its red colour.
\<close>

theorem overtime_counterexample:
  "remaining (updateDutyTimer on_duty 28810000 28810000) 28810000 = Num 0 \<and>
   remaining (requestOvertime (updateDutyTimer on_duty 28810000 28810000)) 28810000 = Num 7190000 \<and>
   remaining (requestOvertime (updateDutyTimer on_duty 28810000 28810000)) 28811000 = Num 7189000 \<and>
   map_option classList
     (dutyTimer (updateDutyTimer (requestOvertime (updateDutyTimer on_duty 28810000 28810000))
        28811000 28811000)) = Some [''critical''] \<and>
   map_option color
     (dutyTimerValue (updateDutyTimer (requestOvertime (updateDutyTimer on_duty 28810000 28810000))
        28811000 28811000)) = Some (Some ''#dc3545'')"
  by code_simp

text \<open>
  The same shift: overtime ten seconds after its end, and the extended shift running out
  at ten hours.
\<close>

theorem overtime_extends_witness:
  "dutyStartTime (updateDutyTimer on_duty 28810000 28810000) = Some (Num 0) \<and>
   shiftDuration (updateDutyTimer on_duty 28810000 28810000) \<le> 28810000 - 0 \<and>
   remaining (requestOvertime (updateDutyTimer on_duty 28810000 28810000)) 28810000 = Num 7190000 \<and>
   dutyTimer (updateDutyTimer on_duty 28810000 28810000) =
     Some \<lparr>textContent = [], classList = [''critical''], color = None\<rparr> \<and>
   map_option (\<lambda>e. ''critical'' \<in> set (classList e))
     (dutyTimer (updateDutyTimer (requestOvertime (updateDutyTimer on_duty 28810000 28810000))
        36000000 36000000)) = Some True \<and>
   remaining (requestOvertime (updateDutyTimer on_duty 28810000 28810000)) 36000000 = Num 0 \<and>
   modalCalls (updateDutyTimer (requestOvertime (updateDutyTimer on_duty 28810000 28810000))
     36000000 36000000) = 2"
proof -
  have a: "dutyStartTime (updateDutyTimer on_duty 28810000 28810000) = Some (Num 0)"
    and b: "shiftDuration (updateDutyTimer on_duty 28810000 28810000) = 28800000"
    and c: "dutyTimer (updateDutyTimer on_duty 28810000 28810000) =
      Some \<lparr>textContent = [], classList = [''critical''], color = None\<rparr>"
    and d: "modalCalls (updateDutyTimer on_duty 28810000 28810000) = 1"
    by (simp_all add: crit_eq)
  have e: "remaining (requestOvertime (updateDutyTimer on_duty 28810000 28810000)) 36000000 = Num 0"
    by (simp add: crit_eq remaining_def elapsed_def timeValue_def requestOvertime_def)
  show ?thesis
    using a b c d e
      overtime_extends [of "updateDutyTimer on_duty 28810000 28810000" 0 28810000
        "\<lparr>textContent = [], classList = [''critical''], color = None\<rparr>" "''critical''"
        36000000 36000000]
    by simp
qed

text \<open>
  Claim C5, as the code has it. For \<open>0 \<le> remaining < 360000000\<close> (less than a hundred
  hours) the string is \<open>HH:MM:SS\<close> with two-digit fields, hours \<open>r div 3600000\<close>,
  minutes \<open>(r mod 3600000) div 60000\<close> and seconds \<open>(r mod 60000) div 1000\<close>.
  \<^verbatim>\<open>padStart(2, '0')\<close> pads and never cuts: from a hundred hours on, the hours field is the
  decimal numeral of the hours, three digits or more, while minutes and seconds stay
  two-digit. \<open>1500000\<close> gives \<^verbatim>\<open>00:25:00\<close>, and \<^verbatim>\<open>updateDutyTimer\<close> writes the string
  of \<^verbatim>\<open>remaining\<close> into the timer's text.
\<close>

theorem timeStr_format:
  "(0 \<le> r \<longrightarrow>
      timeStr (Num r) =
        (if r < 360000000 then HHMMSS r
         else decimal (nat (r div 3600000)) @ '':'' @
              two_digit (nat ((r mod 3600000) div 60000)) @ '':'' @
              two_digit (nat ((r mod 60000) div 1000)))) \<and>
   timeStr (Num 1500000) = ''00:25:00'' \<and>
   map_option textContent (dutyTimerValue (updateDutyTimer p now now')) =
     map_option (\<lambda>e. timeStr (remaining p now)) (dutyTimerValue p)"
proof (intro conjI impI)
  assume "0 \<le> r"
  then show "timeStr (Num r) =
        (if r < 360000000 then HHMMSS r
         else decimal (nat (r div 3600000)) @ '':'' @
              two_digit (nat ((r mod 3600000) div 60000)) @ '':'' @
              two_digit (nat ((r mod 60000) div 1000)))"
    by (simp add: timeStr_def hours_field minutes_field seconds_field join3_def HHMMSS_def)
next
  show "timeStr (Num 1500000) = ''00:25:00''"
    by code_simp
next
  show "map_option textContent (dutyTimerValue (updateDutyTimer p now now')) =
     map_option (\<lambda>e. timeStr (remaining p now)) (dutyTimerValue p)"
    by (rule updateDutyTimer_text)
qed

text \<open>
  The claim as stated fails at a hundred hours: the string has nine characters. A page
  meets that value when its start time lies 92 hours after the clock reading (a stored
  start and a clock that was set back since).
\<close>

theorem timeStr_two_digit_counterexample:
  "timeStr (Num 360000000) = ''100:00:00'' \<and> length (timeStr (Num 360000000)) = 9 \<and>
   length (HHMMSS 360000000) = 8 \<and>
   remaining (on_duty\<lparr>dutyStartTime := Some (Num 331200000)\<rparr>) 0 = Num 360000000 \<and>
   map_option textContent
     (dutyTimerValue (updateDutyTimer (on_duty\<lparr>dutyStartTime := Some (Num 331200000)\<rparr>) 0 0)) =
     Some ''100:00:00''"
  by code_simp

text \<open>7h31m, and a hundred hours.\<close>

theorem timeStr_format_witness:
  "(0::int) \<le> 27060000 \<and> timeStr (Num 27060000) = ''07:31:00'' \<and>
   (0::int) \<le> 360000000 \<and> timeStr (Num 360000000) = ''100:00:00''"
proof -
  have "HHMMSS 27060000 = ''07:31:00''"
    by code_simp
  moreover have "decimal (nat (360000000 div 3600000)) @ '':'' @
              two_digit (nat ((360000000 mod 3600000) div 60000)) @ '':'' @
              two_digit (nat ((360000000 mod 60000) div 1000)) = ''100:00:00''"
    by code_simp
  ultimately show ?thesis
    using timeStr_format [of 27060000 on_duty 0 0] timeStr_format [of 360000000 on_duty 0 0]
    by simp
qed

text \<open>
  Claim C6, as the code has it. \<^verbatim>\<open>remaining\<close> is \<^verbatim>\<open>Math.max(0, ...)\<close> of a
  difference of clock readings, and what it is depends on the start time alone. With a
  valid start time \<open>s\<close>, \<^verbatim>\<open>remaining\<close> at clock reading \<open>now\<close> is
  \<open>max 0 (shiftDuration - (now - s))\<close>: a number, never negative, and \<open>0\<close> once the
  elapsed time exceeds the shift duration (before \<^verbatim>\<open>startDutyTimer\<close> has run the start
  is \<^verbatim>\<open>null\<close> and counts as \<open>0\<close>). With an Invalid Date as start time, the case of a
  stored value that does not parse, \<^verbatim>\<open>remaining\<close> is \<^verbatim>\<open>NaN\<close> at every clock reading
  and after every firing of the interval: neither \<open>0\<close> nor greater than \<open>0\<close>.
\<close>

theorem remaining_nonneg:
  "(dutyStartTime p = Some (Num s) \<longrightarrow>
      remaining p now = Num (max 0 (shiftDuration p - (now - s))) \<and>
      (\<exists>r. remaining p now = Num r \<and> 0 \<le> r) \<and>
      (shiftDuration p < now - s \<longrightarrow> remaining p now = Num 0)) \<and>
   (dutyStartTime p = None \<longrightarrow>
      remaining p now = Num (max 0 (shiftDuration p - now))) \<and>
   (dutyStartTime p = Some NaN \<longrightarrow>
      remaining p now = NaN \<and> remaining (ticks p ts) now = NaN \<and>
      \<not> js_gt (remaining p now) 0 \<and> remaining p now \<noteq> Num 0)"
proof (intro conjI impI)
  assume "dutyStartTime p = Some (Num s)"
  then show v: "remaining p now = Num (max 0 (shiftDuration p - (now - s)))"
    by (rule remaining_valid)
  then show "\<exists>r. remaining p now = Num r \<and> 0 \<le> r"
    by simp
  assume "shiftDuration p < now - s"
  then show "remaining p now = Num 0"
    using v by simp
next
  assume "dutyStartTime p = None"
  then show "remaining p now = Num (max 0 (shiftDuration p - now))"
    by (simp add: remaining_def elapsed_def timeValue_def)
next
  assume "dutyStartTime p = Some NaN"
  then show n: "remaining p now = NaN"
    by (simp add: remaining_def elapsed_def timeValue_def)
  then show "remaining (ticks p ts) now = NaN"
    by (simp add: remaining_ticks)
  show "\<not> js_gt (remaining p now) 0"
    using n by simp
  show "remaining p now \<noteq> Num 0"
    using n by simp
qed

text \<open>
  The claim as stated fails on a page loaded with a stored string that is no date: at the
  first call of \<^verbatim>\<open>updateDutyTimer\<close> and at a firing of the interval a second later,
  \<^verbatim>\<open>remaining\<close> is \<^verbatim>\<open>NaN\<close>, which is not the number \<open>max 0 (28800000 - elapsed)\<close>
  for any start time, and is neither \<open>0\<close> nor greater than \<open>0\<close>.
\<close>

theorem remaining_nan_counterexample:
  "remaining (startDutyTimer epoch_host (fresh [(''duty_start_time'', ''not a date'')]) 5 5 5) 5 =
     NaN \<and>
   remaining
     (ticks (startDutyTimer epoch_host (fresh [(''duty_start_time'', ''not a date'')]) 5 5 5)
        [(1005, 1005)]) 2005 = NaN \<and>
   \<not> js_gt
       (remaining (startDutyTimer epoch_host (fresh [(''duty_start_time'', ''not a date'')]) 5 5 5)
          2005) 0 \<and>
   remaining (startDutyTimer epoch_host (fresh [(''duty_start_time'', ''not a date'')]) 5 5 5)
     2005 \<noteq> Num 0 \<and>
   map_option textContent
     (dutyTimerValue
        (ticks (startDutyTimer epoch_host (fresh [(''duty_start_time'', ''not a date'')]) 5 5 5)
           [(1005, 1005)])) = Some ''NaN:NaN:NaN''"
  by code_simp

text \<open>
  An eight-hour shift started at \<open>0\<close>, at 8h20m; the object literal before
  \<^verbatim>\<open>startDutyTimer\<close> has run; and the page loaded with a stored string that is no date.
\<close>

theorem remaining_nonneg_witness:
  "dutyStartTime on_duty = Some (Num 0) \<and> shiftDuration on_duty < 30000000 - 0 \<and>
   remaining on_duty 30000000 = Num 0 \<and>
   dutyStartTime (fresh []) = None \<and>
   remaining (fresh []) 1000 = Num 28799000 \<and>
   dutyStartTime (startDutyTimer epoch_host (fresh [(''duty_start_time'', ''not a date'')]) 5 5 5) =
     Some NaN \<and>
   remaining (startDutyTimer epoch_host (fresh [(''duty_start_time'', ''not a date'')]) 5 5 5)
     2005 = NaN"
proof -
  have a: "dutyStartTime on_duty = Some (Num 0)" and b: "shiftDuration on_duty = 28800000"
    by (simp_all add: on_duty_eq)
  have c: "dutyStartTime (fresh []) = None" and d: "shiftDuration (fresh []) = 28800000"
    by (simp_all add: fresh_def SecurityMonitor_def)
  have e: "dutyStartTime
      (startDutyTimer epoch_host (fresh [(''duty_start_time'', ''not a date'')]) 5 5 5) = Some NaN"
    by code_simp
  show ?thesis
    using a b c d e remaining_nonneg [of on_duty 0 30000000 "[]"]
      remaining_nonneg [of "fresh []" 0 1000 "[]"]
      remaining_nonneg
        [of "startDutyTimer epoch_host (fresh [(''duty_start_time'', ''not a date'')]) 5 5 5"
          0 2005 "[]"]
    by simp
qed

text \<open>
  Claim C7. \<^verbatim>\<open>updateDutyTimer\<close> changes neither the start time nor the shift duration,
  so after any run of the interval \<^verbatim>\<open>remaining\<close> at \<open>now\<close> is what it was before the
  run, and the text the next call writes is the string of that value. A page loaded with
  empty storage at \<open>s\<close> stores the start; a page loaded later with that storage (on a host
  whose \<^verbatim>\<open>toISOString\<close> gives a non-empty string that parses back to \<open>s\<close>) has the same
  \<^verbatim>\<open>remaining\<close> at every clock reading as the page that was never reloaded, whatever
  firings of the interval either page has seen.
\<close>

theorem tick_is_recomputation:
  "remaining (ticks p ts) now = remaining p now \<and>
   map_option textContent (dutyTimerValue (updateDutyTimer (ticks p ts) now now')) =
     map_option (\<lambda>e. timeStr (remaining p now)) (dutyTimerValue p) \<and>
   (\<not> truthy (getItem ls ''duty_start_time'') \<and> toISOString h s \<noteq> [] \<and>
    dateParse h (toISOString h s) = Num s \<longrightarrow>
      remaining
        (ticks (startDutyTimer h
           (SecurityMonitor (localStorage (ticks (startDutyTimer h (SecurityMonitor ls a b c d) s t1 t2) ts1))
              a' b' c' d') t0' t1' t2') ts2) now =
      remaining (ticks (startDutyTimer h (SecurityMonitor ls a b c d) s t1 t2) ts) now)"
proof (intro conjI impI)
  show "remaining (ticks p ts) now = remaining p now"
    by (rule remaining_ticks)
  show "map_option textContent (dutyTimerValue (updateDutyTimer (ticks p ts) now now')) =
     map_option (\<lambda>e. timeStr (remaining p now)) (dutyTimerValue p)"
    by (rule ticks_text)
next
  assume h: "\<not> truthy (getItem ls ''duty_start_time'') \<and> toISOString h s \<noteq> [] \<and>
    dateParse h (toISOString h s) = Num s"
  let ?p = "startDutyTimer h (SecurityMonitor ls a b c d) s t1 t2"
  let ?load = "SecurityMonitor (localStorage (ticks ?p ts1)) a' b' c' d'"
  let ?q = "startDutyTimer h ?load t0' t1' t2'"
  have absent: "\<not> truthy (getItem (localStorage (SecurityMonitor ls a b c d)) ''duty_start_time'')"
    using h by (simp add: SecurityMonitor_fields)
  have p_start: "dutyStartTime ?p = Some (Num s)"
    using startDutyTimer_absent [OF absent] by simp
  have "localStorage ?p = setItem ls ''duty_start_time'' (toISOString h s)"
    using startDutyTimer_absent [OF absent, of h s t1 t2] by (simp add: SecurityMonitor_fields)
  then have "getItem (localStorage ?load) ''duty_start_time'' = Some (toISOString h s)"
    by (simp add: SecurityMonitor_fields ticks_localStorage getItem_setItem)
  then have "dutyStartTime ?q = Some (dateParse h (toISOString h s))"
    using h startDutyTimer_present [of ?load "toISOString h s" h t0' t1' t2'] by simp
  then have q_start: "dutyStartTime ?q = Some (Num s)"
    using h by simp
  have "shiftDuration ?q = shiftDuration ?p"
    by (simp add: startDutyTimer_shiftDuration SecurityMonitor_fields)
  then have "remaining ?q now = remaining ?p now"
    using p_start q_start by (simp add: remaining_cong)
  then show "remaining (ticks ?q ts2) now = remaining (ticks ?p ts) now"
    by (simp add: remaining_ticks)
qed

text \<open>A load at \<open>0\<close>, a reload at five seconds, both read at nine seconds.\<close>

theorem tick_is_recomputation_witness:
  "\<not> truthy (getItem [] ''duty_start_time'') \<and> toISOString epoch_host 0 \<noteq> [] \<and>
   dateParse epoch_host (toISOString epoch_host 0) = Num 0 \<and>
   remaining
     (ticks (startDutyTimer epoch_host
        (SecurityMonitor
           (localStorage
              (ticks (startDutyTimer epoch_host (SecurityMonitor [] None None None None) 0 0 0)
                 [(1000, 1000)]))
           None None None None) 5000 5000 5000) []) 9000 =
   remaining
     (ticks (startDutyTimer epoch_host (SecurityMonitor [] None None None None) 0 0 0)
        [(1000, 1000), (2000, 2000)]) 9000"
proof -
  have a: "\<not> truthy (getItem [] ''duty_start_time'') \<and> toISOString epoch_host 0 \<noteq> [] \<and>
    dateParse epoch_host (toISOString epoch_host 0) = Num 0"
    by code_simp
  show ?thesis
    using a tick_is_recomputation [where p = on_duty and ts = "[(1000, 1000), (2000, 2000)]"
        and now = 9000 and now' = 9000 and ls = "[]" and h = epoch_host and s = 0
        and a = None and b = None and c = None and d = None and ?t1.0 = 0 and ?t2.0 = 0
        and ?ts1.0 = "[(1000, 1000)]" and a' = None and b' = None and c' = None and d' = None
        and t0' = 5000 and t1' = 5000 and t2' = 5000 and ?ts2.0 = "[]"]
    by simp
qed

text \<open>
  Claim C8. When \<^verbatim>\<open>localStorage\<close> holds a (non-empty) value under
  \<^verbatim>\<open>duty_start_time\<close>, \<^verbatim>\<open>startDutyTimer\<close> takes the date of that value as the start
  and leaves the storage as it is; otherwise the start is the clock reading, and its ISO
  string is stored under the key.
\<close>

theorem start_reuses_or_persists:
  "(getItem (localStorage p) ''duty_start_time'' = Some v \<and> v \<noteq> [] \<longrightarrow>
      dutyStartTime (startDutyTimer h p t0 t1 t2) = Some (dateParse h v) \<and>
      localStorage (startDutyTimer h p t0 t1 t2) = localStorage p) \<and>
   (\<not> truthy (getItem (localStorage p) ''duty_start_time'') \<longrightarrow>
      dutyStartTime (startDutyTimer h p t0 t1 t2) = Some (Num t0) \<and>
      localStorage (startDutyTimer h p t0 t1 t2) =
        setItem (localStorage p) ''duty_start_time'' (toISOString h t0) \<and>
      getItem (localStorage (startDutyTimer h p t0 t1 t2)) ''duty_start_time'' =
        Some (toISOString h t0))"
proof (intro conjI impI)
  assume "getItem (localStorage p) ''duty_start_time'' = Some v \<and> v \<noteq> []"
  then have g: "getItem (localStorage p) ''duty_start_time'' = Some v" and v: "v \<noteq> []"
    by simp_all
  show "dutyStartTime (startDutyTimer h p t0 t1 t2) = Some (dateParse h v)"
    using startDutyTimer_present [OF g v] by simp
  show "localStorage (startDutyTimer h p t0 t1 t2) = localStorage p"
    using startDutyTimer_present [OF g v] by simp
next
  assume a: "\<not> truthy (getItem (localStorage p) ''duty_start_time'')"
  show "dutyStartTime (startDutyTimer h p t0 t1 t2) = Some (Num t0)"
    using startDutyTimer_absent [OF a] by simp
  show s: "localStorage (startDutyTimer h p t0 t1 t2) =
        setItem (localStorage p) ''duty_start_time'' (toISOString h t0)"
    using startDutyTimer_absent [OF a] by simp
  show "getItem (localStorage (startDutyTimer h p t0 t1 t2)) ''duty_start_time'' =
        Some (toISOString h t0)"
    by (simp add: s getItem_setItem)
qed

text \<open>A page loaded with the epoch stored, and one loaded with empty storage.\<close>

theorem start_reuses_or_persists_witness:
  "getItem (localStorage (fresh [(''duty_start_time'', ''1970-01-01T00:00:00.000Z'')]))
     ''duty_start_time'' = Some ''1970-01-01T00:00:00.000Z'' \<and>
   dutyStartTime
     (startDutyTimer epoch_host (fresh [(''duty_start_time'', ''1970-01-01T00:00:00.000Z'')]) 7 7 7) =
     Some (Num 0) \<and>
   localStorage
     (startDutyTimer epoch_host (fresh [(''duty_start_time'', ''1970-01-01T00:00:00.000Z'')]) 7 7 7) =
     [(''duty_start_time'', ''1970-01-01T00:00:00.000Z'')] \<and>
   \<not> truthy (getItem (localStorage (fresh [])) ''duty_start_time'') \<and>
   dutyStartTime (startDutyTimer epoch_host (fresh []) 0 0 0) = Some (Num 0) \<and>
   localStorage (startDutyTimer epoch_host (fresh []) 0 0 0) =
     [(''duty_start_time'', ''1970-01-01T00:00:00.000Z'')]"
proof -
  have a: "getItem (localStorage (fresh [(''duty_start_time'', ''1970-01-01T00:00:00.000Z'')]))
     ''duty_start_time'' = Some ''1970-01-01T00:00:00.000Z''"
    and b: "localStorage (fresh [(''duty_start_time'', ''1970-01-01T00:00:00.000Z'')]) =
      [(''duty_start_time'', ''1970-01-01T00:00:00.000Z'')]"
    and c: "dateParse epoch_host ''1970-01-01T00:00:00.000Z'' = Num 0"
    and d: "\<not> truthy (getItem (localStorage (fresh [])) ''duty_start_time'')"
    and e: "setItem (localStorage (fresh [])) ''duty_start_time'' (toISOString epoch_host 0) =
      [(''duty_start_time'', ''1970-01-01T00:00:00.000Z'')]"
    by code_simp+
  show ?thesis
    using a b c d e
      start_reuses_or_persists [of "fresh [(''duty_start_time'', ''1970-01-01T00:00:00.000Z'')]"
        "''1970-01-01T00:00:00.000Z''" epoch_host 7 7 7]
      start_reuses_or_persists [of "fresh []" "''x''" epoch_host 0 0 0]
    by simp
qed

text \<open>
  Claim C9. \<^verbatim>\<open>endShift\<close> and \<^verbatim>\<open>logout\<close> both remove \<^verbatim>\<open>duty_start_time\<close> from
  \<^verbatim>\<open>localStorage\<close>, stop the interval and navigate away; a page loaded afterwards with
  the storage either of them left starts a shift at its own clock reading and stores it.
\<close>

theorem end_and_logout_clear_start:
  "getItem (localStorage (endShift p)) ''duty_start_time'' = None \<and>
   getItem (localStorage (logout p)) ''duty_start_time'' = None \<and>
   dutyStartTime
     (startDutyTimer h (SecurityMonitor (localStorage (endShift p)) a b c d) t0 t1 t2) =
     Some (Num t0) \<and>
   dutyStartTime
     (startDutyTimer h (SecurityMonitor (localStorage (logout p)) a b c d) t0 t1 t2) =
     Some (Num t0) \<and>
   getItem (localStorage
       (startDutyTimer h (SecurityMonitor (localStorage (endShift p)) a b c d) t0 t1 t2))
     ''duty_start_time'' = Some (toISOString h t0) \<and>
   getItem (localStorage
       (startDutyTimer h (SecurityMonitor (localStorage (logout p)) a b c d) t0 t1 t2))
     ''duty_start_time'' = Some (toISOString h t0) \<and>
   \<not> dutyTimerInterval (endShift p) \<and> \<not> dutyTimerInterval (logout p) \<and>
   location (endShift p) = Some ''../../index.html'' \<and>
   location (logout p) = Some ''../../index.html''"
proof -
  have e: "getItem (localStorage (endShift p)) ''duty_start_time'' = None"
    by (simp add: endShift_def getItem_removeItem)
  have l: "getItem (localStorage (logout p)) ''duty_start_time'' = None"
    by (simp add: logout_def getItem_removeItem)
  show ?thesis
    using e l start_after_removal [OF e, of h a b c d t0 t1 t2]
      start_after_removal [OF l, of h a b c d t0 t1 t2]
    by (simp add: endShift_def logout_def)
qed

text \<open>
  Claim C10. \<^verbatim>\<open>shiftDuration\<close> is eight hours (\<open>28800000\<close>) in the object literal;
  \<^verbatim>\<open>startDutyTimer\<close> does not change it; of the events only the overtime request
  changes it, adding exactly \<open>7200000\<close>. Along any sequence of events it never
  decreases, and on a loaded page it is eight hours plus two hours for each overtime
  request, hence at least \<open>28800000\<close>.
\<close>

theorem shiftDuration_monotone:
  "shiftDuration (SecurityMonitor ls a b c d) = 28800000 \<and>
   shiftDuration (startDutyTimer h p t0 t1 t2) = shiftDuration p \<and>
   shiftDuration (handle p e) =
     shiftDuration p + (if e = RequestOvertimeBtn then 7200000 else 0) \<and>
   shiftDuration (run p es) \<le> shiftDuration (run p (es @ es')) \<and>
   shiftDuration (run (startDutyTimer h (SecurityMonitor ls a b c d) t0 t1 t2) es) =
     28800000 + 7200000 * int (length (filter (\<lambda>e. e = RequestOvertimeBtn) es)) \<and>
   28800000 \<le> shiftDuration (run (startDutyTimer h (SecurityMonitor ls a b c d) t0 t1 t2) es)"
proof -
  have "shiftDuration (run (run p es) es') =
     shiftDuration (run p es) + 7200000 * int (length (filter (\<lambda>e. e = RequestOvertimeBtn) es'))"
    by (rule run_shiftDuration)
  then have m: "shiftDuration (run p es) \<le> shiftDuration (run p (es @ es'))"
    by (simp add: run_append)
  have s: "shiftDuration (run (startDutyTimer h (SecurityMonitor ls a b c d) t0 t1 t2) es) =
     28800000 + 7200000 * int (length (filter (\<lambda>e. e = RequestOvertimeBtn) es))"
    by (simp add: run_shiftDuration startDutyTimer_shiftDuration SecurityMonitor_fields)
  show ?thesis
    using m s by (simp add: handle_shiftDuration startDutyTimer_shiftDuration SecurityMonitor_fields)
qed

end
